theory Spec2Isabelle
  imports Main "HOL-Library.Word" "HOL-Library.Multiset"
begin

section \<open>Data model\<close>

text \<open>
  The wrappers of \<^verbatim>\<open>python/cudf/cudf/_libxx/copying.pyx\<close> pass columns, tables and
  scalars to libcudf. A column is a fixed-length sequence of nullable elements
  (\<open>None\<close> is the null element), a table an ordered sequence of columns. Row bounds and
  offsets have the C type \<^verbatim>\<open>size_type\<close> (libcudf's 32-bit signed integer): a
  \<open>32 word\<close>, read with \<open>sint\<close>; C arithmetic on it wraps around.
\<close>

type_synonym size_type = "32 word"

type_synonym 'a column = "'a option list"

type_synonym 'a table = "'a column list"

text \<open>How a call can fail: with one of the two C++ exception classes of
  \<^verbatim>\<open>error_utils.hpp\<close>, with the \<^verbatim>\<open>OverflowError\<close> of a failed conversion to a C
  integer, or (spec 7 (c)) with undefined behaviour, where no outcome is promised.\<close>

datatype error = logic_error string | cuda_error string | OverflowError | undefined_behaviour

text \<open>What a wrapper hands back to Python.\<close>

datatype 'a pyobject = PyNone | PyColumn "'a column" | PyTable "'a table"

text \<open>\<^verbatim>\<open>Column.size\<close>, a Python integer.\<close>

definition column_size :: "'a column \<Rightarrow> int" where
  "column_size c = int (length c)"

text \<open>Assigning a Python integer to a \<^verbatim>\<open>size_type\<close> variable: Cython converts with a
  range check and raises \<^verbatim>\<open>OverflowError\<close> outside the 32-bit range.\<close>

definition as_size_type :: "int \<Rightarrow> error + size_type" where
  "as_size_type i =
     (if - (2 ^ 31) \<le> i \<and> i < 2 ^ 31 then Inr (word_of_int i) else Inl OverflowError)"

section \<open>Range copy\<close>

text \<open>
  Modelled from the spec: \<^verbatim>\<open>cpp_copying.copy_range\<close> and
  \<^verbatim>\<open>cpp_copying.copy_range_in_place\<close> are libcudf functions whose C++ is not among the
  sources. Spec 4.2: the elements \<open>[src_begin, src_end)\<close> of the source are copied into
  the destination starting at \<open>dst_begin\<close>; the contract is
  \<open>0 \<le> src_begin \<le> src_end \<le> src.size\<close> and the destination range must fit within
  the destination; a violated contract is a logic error (spec 7). Both variants compute
  the same contents: a full copy of the destination with the sub-range overwritten.
\<close>

definition range_overwrite ::
  "'a column \<Rightarrow> 'a column \<Rightarrow> size_type \<Rightarrow> size_type \<Rightarrow> size_type \<Rightarrow> error + 'a column" where
  "range_overwrite src dst src_begin src_end dst_begin =
     (let b = sint src_begin; e = sint src_end; t = sint dst_begin in
      if 0 \<le> b \<and> b \<le> e \<and> e \<le> column_size src \<and> 0 \<le> t \<and> t + (e - b) \<le> column_size dst
      then Inr (take (nat t) dst @ take (nat (e - b)) (drop (nat b) src)
                  @ drop (nat (t + (e - b))) dst)
      else Inl (logic_error ''Range is out of bounds.''))"

text \<open>Modelled from the spec: the out-of-place variant returns the new column.\<close>

definition cpp_copy_range ::
  "'a column \<Rightarrow> 'a column \<Rightarrow> size_type \<Rightarrow> size_type \<Rightarrow> size_type \<Rightarrow> error + 'a column" where
  "cpp_copy_range input target input_begin input_end target_begin =
     range_overwrite input target input_begin input_end target_begin"

text \<open>Modelled from the spec: the in-place variant returns nothing and leaves the new
  contents in the storage of the destination; the result is that storage.\<close>

definition cpp_copy_range_in_place ::
  "'a column \<Rightarrow> 'a column \<Rightarrow> size_type \<Rightarrow> size_type \<Rightarrow> size_type \<Rightarrow> error + 'a column" where
  "cpp_copy_range_in_place input target input_begin input_end target_begin =
     range_overwrite input target input_begin input_end target_begin"

text \<open>
  The wrappers that take a target are functions from the arguments to the outcome of the
  call: the exception raised, or the object returned to Python together with the contents
  of the target's storage when the call returns. The names \<^verbatim>\<open>_copy_range_in_place\<close>,
  \<^verbatim>\<open>_copy_range\<close>, ... of the source are written with the prefix \<open>private\<close>.

  \<^verbatim>\<open>_copy_range_in_place\<close> has no \<^verbatim>\<open>return\<close> statement: it returns \<^verbatim>\<open>None\<close>.
\<close>

definition private_copy_range_in_place ::
  "'a column \<Rightarrow> 'a column \<Rightarrow> size_type \<Rightarrow> size_type \<Rightarrow> size_type
     \<Rightarrow> error + ('a pyobject \<times> 'a column)" where
  "private_copy_range_in_place input_column target_column input_begin input_end target_begin =
     (case cpp_copy_range_in_place input_column target_column input_begin input_end target_begin of
        Inl e \<Rightarrow> Inl e
      | Inr storage \<Rightarrow> Inr (PyNone, storage))"

definition private_copy_range ::
  "'a column \<Rightarrow> 'a column \<Rightarrow> size_type \<Rightarrow> size_type \<Rightarrow> size_type
     \<Rightarrow> error + ('a pyobject \<times> 'a column)" where
  "private_copy_range input_column target_column input_begin input_end target_begin =
     (case cpp_copy_range input_column target_column input_begin input_end target_begin of
        Inl e \<Rightarrow> Inl e
      | Inr c_result \<Rightarrow> Inr (PyColumn c_result, target_column))"

text \<open>
  Lines 113 to 117 of the source, once for each bound: a negative bound has
  \<^verbatim>\<open>target_column.size\<close> added. The sum is a Python integer, stored back into the
  \<^verbatim>\<open>size_type\<close> variable.
\<close>

definition normalize_bound :: "'a column \<Rightarrow> size_type \<Rightarrow> error + size_type" where
  "normalize_bound target_column bound =
     (if sint bound < 0 then as_size_type (sint bound + column_size target_column)
      else Inr bound)"

text \<open>
  \<^verbatim>\<open>copy_range\<close>. The difference \<^verbatim>\<open>target_end - target_begin\<close> is C arithmetic on
  \<^verbatim>\<open>size_type\<close> (word subtraction); \<^verbatim>\<open>abs\<close> of a C integer is its magnitude
  as an unsigned value.
\<close>

definition copy_range ::
  "'a column \<Rightarrow> 'a column \<Rightarrow> size_type \<Rightarrow> size_type \<Rightarrow> size_type \<Rightarrow> size_type \<Rightarrow> bool
     \<Rightarrow> error + ('a pyobject \<times> 'a column)" where
  "copy_range input_column target_column input_begin input_end target_begin target_end inplace =
     (if \<bar>sint (target_end - target_begin)\<bar> \<le> 1 then Inr (PyColumn target_column, target_column)
      else
        case normalize_bound target_column target_begin of
          Inl e \<Rightarrow> Inl e
        | Inr target_begin1 \<Rightarrow>
            (case normalize_bound target_column target_end of
               Inl e \<Rightarrow> Inl e
             | Inr target_end1 \<Rightarrow>
                 if sint target_begin1 > sint target_end1
                 then Inr (PyColumn target_column, target_column)
                 else if inplace
                 then private_copy_range_in_place input_column target_column
                        input_begin input_end target_begin1
                 else private_copy_range input_column target_column
                        input_begin input_end target_begin1))"

section \<open>Tables and index maps\<close>

text \<open>
  Modelled from the spec: the table views of libcudf (\<^verbatim>\<open>Table.view\<close>,
  \<^verbatim>\<open>Table.data_view\<close>) are not among the sources. Spec 3: all columns of a table share
  one row count; spec 7 (a): a row-count mismatch is a logic error. Column names and the
  index of the tabular API are outside the engine (spec 1) and outside the model.
\<close>

definition num_rows :: "'a table \<Rightarrow> nat" where
  "num_rows t = (case t of [] \<Rightarrow> 0 | c # _ \<Rightarrow> length c)"

text \<open>Modelled from the spec: the table invariant of spec 3, which the table views of
  libcudf check.\<close>

definition table_ok :: "'a table \<Rightarrow> bool" where
  "table_ok t = (\<forall>c \<in> set t. length c = num_rows t)"

text \<open>Modelled from the spec (4.3): a negative index \<open>k\<close> maps to \<open>size + k\<close>. A gather
  or scatter map is a column of an integer type; it is the list of its entries.\<close>

definition wrap_index :: "nat \<Rightarrow> int \<Rightarrow> int" where
  "wrap_index n k = (if k < 0 then int n + k else k)"

text \<open>Modelled from the spec: every (wrapped) index of a map lies in \<open>[0, size)\<close>
  (spec 4.3, 4.4).\<close>

definition in_bounds :: "nat \<Rightarrow> int list \<Rightarrow> bool" where
  "in_bounds n index_map = (\<forall>k \<in> set index_map. 0 \<le> wrap_index n k \<and> wrap_index n k < int n)"

section \<open>Gather\<close>

text \<open>
  Modelled from the spec: \<^verbatim>\<open>cpp_copying.gather\<close> is a libcudf function whose C++ is not
  among the sources. Spec 4.3: output row \<open>i\<close> is a copy of the source row at the wrapped
  index \<open>gather_map[i]\<close>; an index out of bounds after the wrap-around is a fatal error, a
  device fault by spec 7 (b).
\<close>

definition cpp_gather :: "'a table \<Rightarrow> int list \<Rightarrow> error + 'a table" where
  "cpp_gather source_table gather_map =
     (let n = num_rows source_table in
      if \<not> table_ok source_table then Inl (logic_error ''Column size mismatch.'')
      else if \<not> in_bounds n gather_map then Inl (cuda_error ''Index out of bounds.'')
      else Inr (map (\<lambda>c. map (\<lambda>k. c ! nat (wrap_index n k)) gather_map) source_table))"

text \<open>\<^verbatim>\<open>gather\<close>. The assertion of line 131, that the map has an integer type, holds by
  the type of the map. The result takes the column names of the source (lines 145 to
  152), which the model does not carry.\<close>

definition gather :: "'a table \<Rightarrow> int list \<Rightarrow> error + 'a pyobject" where
  "gather source_table gather_map =
     (case cpp_gather source_table gather_map of
        Inl e \<Rightarrow> Inl e
      | Inr c_result \<Rightarrow> Inr (PyTable c_result))"

section \<open>Scatter\<close>

text \<open>
  Modelled from the spec: the two overloads of \<^verbatim>\<open>cpp_copying.scatter\<close> are libcudf
  functions whose C++ is not among the sources. Spec 4.4: the result is a copy of the
  target with row \<open>scatter_map[i]\<close> overwritten by source row \<open>i\<close>, for each \<open>i\<close> in turn,
  and \<open>scatter_map.size\<close> equals the row count of the source; with scalars, one per
  target column, each addressed row takes the scalar. With \<open>bounds_check\<close> an index out
  of bounds is an error, without it undefined behaviour (spec 7 (c)).
\<close>

definition scatter_column :: "nat \<Rightarrow> 'a column \<Rightarrow> int list \<Rightarrow> 'a column \<Rightarrow> 'a column" where
  "scatter_column n source scatter_map target =
     foldl (\<lambda>t (k, v). t[nat (wrap_index n k) := v]) target (zip scatter_map source)"

text \<open>Modelled from the spec: the scalar form for one column; every addressed row takes
  the value and validity of the scalar.\<close>

definition scatter_scalar_column :: "nat \<Rightarrow> 'a option \<Rightarrow> int list \<Rightarrow> 'a column \<Rightarrow> 'a column" where
  "scatter_scalar_column n source scatter_map target =
     foldl (\<lambda>t k. t[nat (wrap_index n k) := source]) target scatter_map"

text \<open>Modelled from the spec: \<^verbatim>\<open>cpp_copying.scatter\<close>, table to table, with its
  preconditions.\<close>

definition cpp_scatter :: "'a table \<Rightarrow> int list \<Rightarrow> 'a table \<Rightarrow> bool \<Rightarrow> error + 'a table" where
  "cpp_scatter source scatter_map target bounds_check =
     (let n = num_rows target in
      if \<not> table_ok source \<or> \<not> table_ok target then Inl (logic_error ''Column size mismatch.'')
      else if length source \<noteq> length target
      then Inl (logic_error ''Number of columns in source and target not equal.'')
      else if length scatter_map \<noteq> num_rows source
      then Inl (logic_error ''Size of scatter map must be equal to number of source rows.'')
      else if \<not> in_bounds n scatter_map
      then Inl (if bounds_check then cuda_error ''Index out of bounds.'' else undefined_behaviour)
      else Inr (map (\<lambda>(s, t). scatter_column n s scatter_map t) (zip source target)))"

text \<open>Modelled from the spec: \<^verbatim>\<open>cpp_copying.scatter\<close>, scalars to table, one scalar
  per target column.\<close>

definition cpp_scatter_scalars ::
  "'a option list \<Rightarrow> int list \<Rightarrow> 'a table \<Rightarrow> bool \<Rightarrow> error + 'a table" where
  "cpp_scatter_scalars source scatter_map target bounds_check =
     (let n = num_rows target in
      if \<not> table_ok target then Inl (logic_error ''Column size mismatch.'')
      else if length source \<noteq> length target
      then Inl (logic_error ''Number of scalars and target columns not equal.'')
      else if \<not> in_bounds n scatter_map
      then Inl (if bounds_check then cuda_error ''Index out of bounds.'' else undefined_behaviour)
      else Inr (map (\<lambda>(s, t). scatter_scalar_column n s scatter_map t) (zip source target)))"

text \<open>The input of \<^verbatim>\<open>scatter\<close> and of \<^verbatim>\<open>boolean_mask_scatter\<close>: a table, or a sequence
  of Python scalars (\<open>None\<close> is the null scalar).\<close>

datatype 'a scatter_input = InputTable "'a table" | InputScalars "'a option list"

text \<open>\<^verbatim>\<open>_scatter_table\<close>: libcudf receives views of the data columns of the source
  and of the target and returns a new table; the target is not written. The result takes
  the column names and the index of the target (lines 175 to 184), which the model does
  not carry.\<close>

definition private_scatter_table ::
  "'a table \<Rightarrow> int list \<Rightarrow> 'a table \<Rightarrow> bool \<Rightarrow> error + ('a pyobject \<times> 'a table)" where
  "private_scatter_table source_table scatter_map target_table bounds_check =
     (case cpp_scatter source_table scatter_map target_table bounds_check of
        Inl e \<Rightarrow> Inl e
      | Inr c_result \<Rightarrow> Inr (PyTable c_result, target_table))"

text \<open>\<^verbatim>\<open>_scatter_scalar\<close>: one libcudf scalar is built for each pair of
  \<^verbatim>\<open>zip(scalars, target_table._columns)\<close>.\<close>

definition private_scatter_scalar ::
  "'a option list \<Rightarrow> int list \<Rightarrow> 'a table \<Rightarrow> bool \<Rightarrow> error + ('a pyobject \<times> 'a table)" where
  "private_scatter_scalar scalars scatter_map target_table bounds_check =
     (let source_scalars = map fst (zip scalars target_table) in
      case cpp_scatter_scalars source_scalars scatter_map target_table bounds_check of
        Inl e \<Rightarrow> Inl e
      | Inr c_result \<Rightarrow> Inr (PyTable c_result, target_table))"

text \<open>\<^verbatim>\<open>scatter\<close>. \<^verbatim>\<open>as_column\<close> turns a map that is not a column into the column of
  its entries.\<close>

definition scatter ::
  "'a scatter_input \<Rightarrow> int list \<Rightarrow> 'a table \<Rightarrow> bool \<Rightarrow> error + ('a pyobject \<times> 'a table)" where
  "scatter input scatter_map target bounds_check =
     (case input of
        InputTable input_table \<Rightarrow> private_scatter_table input_table scatter_map target bounds_check
      | InputScalars scalars \<Rightarrow> private_scatter_scalar scalars scatter_map target bounds_check)"

section \<open>Conditional select\<close>

text \<open>
  Modelled from the spec: the four overloads of \<^verbatim>\<open>cpp_copying.copy_if_else\<close> are libcudf
  functions whose C++ is not among the sources. Spec 4.6: row \<open>i\<close> of the output is
  \<open>lhs[i]\<close> if \<open>boolean_mask[i]\<close> is true and valid, else \<open>rhs[i]\<close>; a scalar is broadcast
  to every row; the mask has the length of the output, and a column operand of another
  length is a row-count mismatch.
\<close>

definition select_rows ::
  "(nat \<Rightarrow> 'a option) \<Rightarrow> (nat \<Rightarrow> 'a option) \<Rightarrow> bool option list \<Rightarrow> 'a column" where
  "select_rows lhs rhs boolean_mask =
     map (\<lambda>i. if boolean_mask ! i = Some True then lhs i else rhs i) [0..<length boolean_mask]"

text \<open>Modelled from the spec: the overload of \<^verbatim>\<open>cpp_copying.copy_if_else\<close> for two
  columns.\<close>

definition cpp_copy_if_else_column_column ::
  "'a column \<Rightarrow> 'a column \<Rightarrow> bool option list \<Rightarrow> error + 'a column" where
  "cpp_copy_if_else_column_column lhs rhs boolean_mask =
     (if length lhs \<noteq> length boolean_mask \<or> length rhs \<noteq> length boolean_mask
      then Inl (logic_error ''Row count mismatch.'')
      else Inr (select_rows (\<lambda>i. lhs ! i) (\<lambda>i. rhs ! i) boolean_mask))"

text \<open>Modelled from the spec: the overload for a scalar and a column.\<close>

definition cpp_copy_if_else_scalar_column ::
  "'a option \<Rightarrow> 'a column \<Rightarrow> bool option list \<Rightarrow> error + 'a column" where
  "cpp_copy_if_else_scalar_column lhs rhs boolean_mask =
     (if length rhs \<noteq> length boolean_mask then Inl (logic_error ''Row count mismatch.'')
      else Inr (select_rows (\<lambda>i. lhs) (\<lambda>i. rhs ! i) boolean_mask))"

text \<open>Modelled from the spec: the overload for a column and a scalar.\<close>

definition cpp_copy_if_else_column_scalar ::
  "'a column \<Rightarrow> 'a option \<Rightarrow> bool option list \<Rightarrow> error + 'a column" where
  "cpp_copy_if_else_column_scalar lhs rhs boolean_mask =
     (if length lhs \<noteq> length boolean_mask then Inl (logic_error ''Row count mismatch.'')
      else Inr (select_rows (\<lambda>i. lhs ! i) (\<lambda>i. rhs) boolean_mask))"

text \<open>Modelled from the spec: the overload for two scalars; the output has the length
  of the mask.\<close>

definition cpp_copy_if_else_scalar_scalar ::
  "'a option \<Rightarrow> 'a option \<Rightarrow> bool option list \<Rightarrow> error + 'a column" where
  "cpp_copy_if_else_scalar_scalar lhs rhs boolean_mask =
     Inr (select_rows (\<lambda>i. lhs) (\<lambda>i. rhs) boolean_mask)"

text \<open>An operand of \<^verbatim>\<open>copy_if_else\<close> is a column or a Python value; the value
  \<^verbatim>\<open>None\<close> is \<open>Value None\<close>, and \<^verbatim>\<open>Scalar(None)\<close> is the null scalar.\<close>

datatype 'a operand = Col "'a column" | Value "'a option"

definition to_pyobject :: "error + 'a column \<Rightarrow> error + 'a pyobject" where
  "to_pyobject r = (case r of Inl e \<Rightarrow> Inl e | Inr c_result \<Rightarrow> Inr (PyColumn c_result))"

definition private_copy_if_else_column_column ::
  "'a column \<Rightarrow> 'a column \<Rightarrow> bool option list \<Rightarrow> error + 'a pyobject" where
  "private_copy_if_else_column_column lhs rhs boolean_mask =
     to_pyobject (cpp_copy_if_else_column_column lhs rhs boolean_mask)"

definition private_copy_if_else_scalar_column ::
  "'a option \<Rightarrow> 'a column \<Rightarrow> bool option list \<Rightarrow> error + 'a pyobject" where
  "private_copy_if_else_scalar_column lhs rhs boolean_mask =
     to_pyobject (cpp_copy_if_else_scalar_column lhs rhs boolean_mask)"

definition private_copy_if_else_column_scalar ::
  "'a column \<Rightarrow> 'a option \<Rightarrow> bool option list \<Rightarrow> error + 'a pyobject" where
  "private_copy_if_else_column_scalar lhs rhs boolean_mask =
     to_pyobject (cpp_copy_if_else_column_scalar lhs rhs boolean_mask)"

definition private_copy_if_else_scalar_scalar ::
  "'a option \<Rightarrow> 'a option \<Rightarrow> bool option list \<Rightarrow> error + 'a pyobject" where
  "private_copy_if_else_scalar_scalar lhs rhs boolean_mask =
     to_pyobject (cpp_copy_if_else_scalar_scalar lhs rhs boolean_mask)"

text \<open>\<^verbatim>\<open>copy_if_else\<close>, in the order of its \<^verbatim>\<open>isinstance\<close> tests. In the last branch
  \<^verbatim>\<open>return lhs\<close> returns the object \<^verbatim>\<open>None\<close>.\<close>

fun copy_if_else :: "'a operand \<Rightarrow> 'a operand \<Rightarrow> bool option list \<Rightarrow> error + 'a pyobject" where
  "copy_if_else (Col lhs) (Col rhs) boolean_mask =
     private_copy_if_else_column_column lhs rhs boolean_mask"
| "copy_if_else (Col lhs) (Value rhs) boolean_mask =
     private_copy_if_else_column_scalar lhs rhs boolean_mask"
| "copy_if_else (Value lhs) (Col rhs) boolean_mask =
     private_copy_if_else_scalar_column lhs rhs boolean_mask"
| "copy_if_else (Value lhs) (Value rhs) boolean_mask =
     (if lhs = None \<and> rhs = None then Inr PyNone
      else private_copy_if_else_scalar_scalar lhs rhs boolean_mask)"

section \<open>Boolean-mask scatter\<close>

text \<open>
  Modelled from the spec: the two overloads of \<^verbatim>\<open>cpp_copying.boolean_mask_scatter\<close> are
  libcudf functions whose C++ is not among the sources. Spec 4.7: the rows of the target
  where the mask is true are overwritten, in order, by the successive rows of the input
  table, whose row count must equal the count of true entries; with scalars, one per
  column, every true-masked row takes the scalar; rows where the mask is false are
  copied unchanged.
\<close>

fun mask_scatter_column :: "'a column \<Rightarrow> 'a column \<Rightarrow> bool option list \<Rightarrow> 'a column" where
  "mask_scatter_column input (t # target) (m # boolean_mask) =
     (if m = Some True
      then (case input of
              [] \<Rightarrow> t # mask_scatter_column [] target boolean_mask
            | x # rest \<Rightarrow> x # mask_scatter_column rest target boolean_mask)
      else t # mask_scatter_column input target boolean_mask)"
| "mask_scatter_column input target boolean_mask = target"

text \<open>Modelled from the spec: the scalar form for one column.\<close>

definition mask_scatter_scalar_column ::
  "'a option \<Rightarrow> 'a column \<Rightarrow> bool option list \<Rightarrow> 'a column" where
  "mask_scatter_scalar_column input target boolean_mask =
     map (\<lambda>(t, m). if m = Some True then input else t) (zip target boolean_mask)"

text \<open>Modelled from the spec: the count of true entries of a mask; a null entry is not
  true.\<close>

definition count_true :: "bool option list \<Rightarrow> nat" where
  "count_true boolean_mask = length (filter (\<lambda>m. m = Some True) boolean_mask)"

text \<open>Modelled from the spec: \<^verbatim>\<open>cpp_copying.boolean_mask_scatter\<close> for an input
  table, with its preconditions.\<close>

definition cpp_boolean_mask_scatter ::
  "'a table \<Rightarrow> 'a table \<Rightarrow> bool option list \<Rightarrow> error + 'a table" where
  "cpp_boolean_mask_scatter input target boolean_mask =
     (if \<not> table_ok input \<or> \<not> table_ok target then Inl (logic_error ''Column size mismatch.'')
      else if length input \<noteq> length target
      then Inl (logic_error ''Mismatch in number of input columns and target columns.'')
      else if length boolean_mask \<noteq> num_rows target
      then Inl (logic_error ''Boolean mask size and number of target rows mismatch.'')
      else if (\<exists>c \<in> set input. length c \<noteq> count_true boolean_mask)
      then Inl (logic_error ''Number of true entries and input rows mismatch.'')
      else Inr (map (\<lambda>(i, t). mask_scatter_column i t boolean_mask) (zip input target)))"

text \<open>Modelled from the spec: \<^verbatim>\<open>cpp_copying.boolean_mask_scatter\<close> for scalars.\<close>

definition cpp_boolean_mask_scatter_scalars ::
  "'a option list \<Rightarrow> 'a table \<Rightarrow> bool option list \<Rightarrow> error + 'a table" where
  "cpp_boolean_mask_scatter_scalars input target boolean_mask =
     (if \<not> table_ok target then Inl (logic_error ''Column size mismatch.'')
      else if length input \<noteq> length target
      then Inl (logic_error ''Mismatch in number of scalars and target columns.'')
      else if length boolean_mask \<noteq> num_rows target
      then Inl (logic_error ''Boolean mask size and number of target rows mismatch.'')
      else Inr (map (\<lambda>(i, t). mask_scatter_scalar_column i t boolean_mask) (zip input target)))"

definition private_boolean_mask_scatter_table ::
  "'a table \<Rightarrow> 'a table \<Rightarrow> bool option list \<Rightarrow> error + ('a pyobject \<times> 'a table)" where
  "private_boolean_mask_scatter_table input_table target_table boolean_mask =
     (case cpp_boolean_mask_scatter input_table target_table boolean_mask of
        Inl e \<Rightarrow> Inl e
      | Inr c_result \<Rightarrow> Inr (PyTable c_result, target_table))"

definition private_boolean_mask_scatter_scalar ::
  "'a option list \<Rightarrow> 'a table \<Rightarrow> bool option list \<Rightarrow> error + ('a pyobject \<times> 'a table)" where
  "private_boolean_mask_scatter_scalar input_scalars target_table boolean_mask =
     (case cpp_boolean_mask_scatter_scalars input_scalars target_table boolean_mask of
        Inl e \<Rightarrow> Inl e
      | Inr c_result \<Rightarrow> Inr (PyTable c_result, target_table))"

text \<open>
  \<^verbatim>\<open>boolean_mask_scatter\<close> (lines 599 to 606). Both branches call the helper as an
  expression statement: its value is dropped, the function body ends, and the call
  returns \<^verbatim>\<open>None\<close>. An exception of the helper propagates.
\<close>

definition boolean_mask_scatter ::
  "'a scatter_input \<Rightarrow> 'a table \<Rightarrow> bool option list \<Rightarrow> error + ('a pyobject \<times> 'a table)" where
  "boolean_mask_scatter input target_table boolean_mask =
     (case input of
        InputTable input_table \<Rightarrow>
          (case private_boolean_mask_scatter_table input_table target_table boolean_mask of
             Inl e \<Rightarrow> Inl e
           | Inr (dropped, target_storage) \<Rightarrow> Inr (PyNone, target_storage))
      | InputScalars scalars \<Rightarrow>
          (let scalar_list = scalars in
           case private_boolean_mask_scatter_scalar scalar_list target_table boolean_mask of
             Inl e \<Rightarrow> Inl e
           | Inr (dropped, target_storage) \<Rightarrow> Inr (PyNone, target_storage)))"

section \<open>Shift\<close>

text \<open>
  Modelled from the spec: \<^verbatim>\<open>cpp_copying.shift\<close> is a libcudf function whose C++ is not
  among the sources. Spec 4.8: the result has the size of the input; element \<open>i\<close> is
  \<open>input[i - offset]\<close> if that index is in range, else the fill value.
\<close>

definition cpp_shift :: "'a column \<Rightarrow> 32 word \<Rightarrow> 'a option \<Rightarrow> 'a column" where
  "cpp_shift input offset fill_value =
     map (\<lambda>i. let j = int i - sint offset in
               if 0 \<le> j \<and> j < int (length input) then input ! nat j else fill_value)
         [0..<length input]"

text \<open>The fill value of \<^verbatim>\<open>shift\<close>: a \<^verbatim>\<open>Scalar\<close> object, or a Python value from which
  \<^verbatim>\<open>Scalar(fill_value, input.dtype)\<close> is built.\<close>

datatype 'a fill = ScalarObject "'a option" | PyValue "'a option"

definition shift :: "'a column \<Rightarrow> 32 word \<Rightarrow> 'a fill \<Rightarrow> error + 'a pyobject" where
  "shift input offset fill_value =
     (let fill = (case fill_value of ScalarObject s \<Rightarrow> s | PyValue v \<Rightarrow> v);
          c_offset = offset;
          c_output = cpp_shift input c_offset fill
      in Inr (PyColumn c_output))"

section \<open>Error utilities\<close>

text \<open>
  The header \<^verbatim>\<open>error_utils.hpp\<close>. The CUDA runtime is outside the repository: what
  \<^verbatim>\<open>cudaStreamSynchronize\<close>, \<^verbatim>\<open>cudaGetLastError\<close>, \<^verbatim>\<open>cudaGetErrorName\<close> and
  \<^verbatim>\<open>cudaGetErrorString\<close> answer at the call is a parameter. A \<^verbatim>\<open>cudaError_t\<close> is its
  code, \<^verbatim>\<open>cudaSuccess\<close> is 0. \<^verbatim>\<open>__FILE__\<close> and \<^verbatim>\<open>__LINE__\<close> are the arguments
  \<open>file\<close> and \<open>line\<close>; a \<^verbatim>\<open>throw\<close> is the value \<open>Inl\<close>.
\<close>

type_synonym cudaError_t = nat

type_synonym cudaStream_t = nat

definition cudaSuccess :: cudaError_t where
  "cudaSuccess = 0"

record cuda_runtime =
  cudaStreamSynchronize :: "cudaStream_t \<Rightarrow> cudaError_t"
  cudaGetLastError :: cudaError_t
  cudaGetErrorName :: "cudaError_t \<Rightarrow> string"
  cudaGetErrorString :: "cudaError_t \<Rightarrow> string"

text \<open>\<^verbatim>\<open>std::to_string\<close> and \<^verbatim>\<open>CUDF_STRINGIFY\<close> of a line number: the decimal digits.\<close>

fun to_string :: "nat \<Rightarrow> string" where
  "to_string n =
     (if n < 10 then [''0123456789'' ! n]
      else to_string (n div 10) @ [''0123456789'' ! (n mod 10)])"

declare to_string.simps [simp del]

definition CUDF_EXPECTS :: "string \<Rightarrow> nat \<Rightarrow> bool \<Rightarrow> string \<Rightarrow> error + unit" where
  "CUDF_EXPECTS file line cond reason =
     (if cond then Inr ()
      else Inl (logic_error (''cuDF failure at: '' @ file @ '':'' @ to_string line
                             @ '': '' @ reason)))"

definition throw_cuda_error :: "cuda_runtime \<Rightarrow> cudaError_t \<Rightarrow> string \<Rightarrow> nat \<Rightarrow> error" where
  "throw_cuda_error rt error file line =
     cuda_error (''CUDA error encountered at: '' @ file @ '':'' @ to_string line @ '': ''
                 @ to_string error @ '' '' @ cudaGetErrorName rt error @ '' ''
                 @ cudaGetErrorString rt error)"

definition check_stream :: "cuda_runtime \<Rightarrow> cudaStream_t \<Rightarrow> string \<Rightarrow> nat \<Rightarrow> error + unit" where
  "check_stream rt stream file line =
     (let error = cudaStreamSynchronize rt stream in
      if cudaSuccess \<noteq> error then Inl (throw_cuda_error rt error file line)
      else let error = cudaGetLastError rt in
           if cudaSuccess \<noteq> error then Inl (throw_cuda_error rt error file line)
           else Inr ())"

text \<open>\<^verbatim>\<open>CUDA_TRY(call)\<close>, with the status the call returned.\<close>

definition CUDA_TRY :: "cuda_runtime \<Rightarrow> cudaError_t \<Rightarrow> string \<Rightarrow> nat \<Rightarrow> error + unit" where
  "CUDA_TRY rt status file line =
     (if cudaSuccess \<noteq> status then Inl (throw_cuda_error rt status file line) else Inr ())"

section \<open>Properties of the range copy\<close>

lemma sint_size_type_bounds: "- (2 ^ 31) \<le> sint (w :: size_type) \<and> sint w < 2 ^ 31"
  using sint_ge [of w] sint_lt [of w] by simp

lemma as_size_type_ok:
  assumes "- (2 ^ 31) \<le> i" and "i < 2 ^ 31"
  shows "\<exists>w. as_size_type i = Inr w \<and> sint w = i"
proof -
  have "sint (word_of_int i :: size_type) = i"
    using assms by (simp only: sint_sbintrunc') (simp add: signed_take_bit_int_eq_self)
  with assms show ?thesis by (simp only: as_size_type_def) simp
qed

lemma normalize_bound_ok:
  assumes "column_size c < 2 ^ 31"
  shows "\<exists>w. normalize_bound c b = Inr w \<and>
           sint w = (if sint b < 0 then sint b + column_size c else sint b)"
proof (cases "sint b < 0")
  case True
  have lo: "- (2 ^ 31) \<le> sint b + column_size c"
    using sint_size_type_bounds [of b] by (simp add: column_size_def)
  have hi: "sint b + column_size c < 2 ^ 31"
    using True assms by simp
  from as_size_type_ok [OF lo hi] True show ?thesis
    by (simp only: normalize_bound_def if_True)
next
  case False
  then show ?thesis by (simp add: normalize_bound_def)
qed

lemmas range_defs = private_copy_range_in_place_def private_copy_range_def
  cpp_copy_range_in_place_def cpp_copy_range_def range_overwrite_def

text \<open>
  C2. For every call of \<open>copy_range\<close>: if \<open>abs(target_end - target_begin) \<le> 1\<close> the call
  returns the target column, unchanged. Otherwise, on a column whose size is a
  \<^verbatim>\<open>size_type\<close> value, each negative bound is normalized by adding the size of the
  target; if the normalized begin is greater than the normalized end the call returns
  the target column, unchanged, and raises nothing; else the copy is made at the
  normalized begin.
\<close>

theorem copy_range_call_site_policy:
  "(\<bar>sint (te - tb)\<bar> \<le> 1 \<longrightarrow>
      copy_range src dst ib ie tb te inplace = Inr (PyColumn dst, dst))
   \<and> (\<not> \<bar>sint (te - tb)\<bar> \<le> 1 \<and> column_size dst < 2 ^ 31 \<longrightarrow>
        (\<exists>tb1 te1.
           normalize_bound dst tb = Inr tb1 \<and> normalize_bound dst te = Inr te1
           \<and> sint tb1 = (if sint tb < 0 then sint tb + column_size dst else sint tb)
           \<and> sint te1 = (if sint te < 0 then sint te + column_size dst else sint te)
           \<and> (sint tb1 > sint te1 \<longrightarrow>
                copy_range src dst ib ie tb te inplace = Inr (PyColumn dst, dst))
           \<and> (sint tb1 \<le> sint te1 \<longrightarrow>
                copy_range src dst ib ie tb te inplace =
                  (if inplace then private_copy_range_in_place src dst ib ie tb1
                   else private_copy_range src dst ib ie tb1))))"
proof (intro conjI impI)
  assume "\<bar>sint (te - tb)\<bar> \<le> 1"
  then show "copy_range src dst ib ie tb te inplace = Inr (PyColumn dst, dst)"
    by (simp add: copy_range_def)
next
  assume a: "\<not> \<bar>sint (te - tb)\<bar> \<le> 1 \<and> column_size dst < 2 ^ 31"
  from normalize_bound_ok [of dst tb] a obtain tb1 where
    b: "normalize_bound dst tb = Inr tb1"
       "sint tb1 = (if sint tb < 0 then sint tb + column_size dst else sint tb)"
    by blast
  from normalize_bound_ok [of dst te] a obtain te1 where
    e: "normalize_bound dst te = Inr te1"
       "sint te1 = (if sint te < 0 then sint te + column_size dst else sint te)"
    by blast
  have 1: "sint tb1 > sint te1 \<longrightarrow>
             copy_range src dst ib ie tb te inplace = Inr (PyColumn dst, dst)"
    using a b(1) e(1) by (simp add: copy_range_def)
  have 2: "sint tb1 \<le> sint te1 \<longrightarrow>
             copy_range src dst ib ie tb te inplace =
               (if inplace then private_copy_range_in_place src dst ib ie tb1
                else private_copy_range src dst ib ie tb1)"
    using a b(1) e(1) by (simp add: copy_range_def)
  from b e 1 2 show "\<exists>tb1 te1.
           normalize_bound dst tb = Inr tb1 \<and> normalize_bound dst te = Inr te1
           \<and> sint tb1 = (if sint tb < 0 then sint tb + column_size dst else sint tb)
           \<and> sint te1 = (if sint te < 0 then sint te + column_size dst else sint te)
           \<and> (sint tb1 > sint te1 \<longrightarrow>
                copy_range src dst ib ie tb te inplace = Inr (PyColumn dst, dst))
           \<and> (sint tb1 \<le> sint te1 \<longrightarrow>
                copy_range src dst ib ie tb te inplace =
                  (if inplace then private_copy_range_in_place src dst ib ie tb1
                   else private_copy_range src dst ib ie tb1))"
    by blast
qed

theorem copy_range_call_site_policy_witness:
  "\<bar>sint ((3 :: size_type) - 2)\<bar> \<le> 1
   \<and> copy_range [Some (7::int), Some 8] [Some 1, Some 2, Some 3, Some 4, Some 5] 0 2 2 3 False
       = Inr (PyColumn [Some 1, Some 2, Some 3, Some 4, Some 5],
              [Some 1, Some 2, Some 3, Some 4, Some 5])
   \<and> \<not> \<bar>sint ((- 4 :: size_type) - 3)\<bar> \<le> 1
   \<and> column_size [Some (1::int), Some 2, Some 3, Some 4, Some 5] < 2 ^ 31
   \<and> normalize_bound [Some (1::int), Some 2, Some 3, Some 4, Some 5] (- 4) = Inr 1
   \<and> copy_range [Some (7::int), Some 8] [Some 1, Some 2, Some 3, Some 4, Some 5] 0 2 3 (- 4) False
       = Inr (PyColumn [Some 1, Some 2, Some 3, Some 4, Some 5],
              [Some 1, Some 2, Some 3, Some 4, Some 5])
   \<and> \<not> \<bar>sint ((- 2 :: size_type) - (- 4))\<bar> \<le> 1
   \<and> normalize_bound [Some (1::int), Some 2, Some 3, Some 4, Some 5] (- 2) = Inr 3
   \<and> copy_range [Some (7::int), Some 8] [Some 1, Some 2, Some 3, Some 4, Some 5] 0 2 (- 4) (- 2) False
       = Inr (PyColumn [Some 1, Some 7, Some 8, Some 4, Some 5],
              [Some 1, Some 2, Some 3, Some 4, Some 5])"
proof -
  let ?src = "[Some (7::int), Some 8]"
  let ?dst = "[Some (1::int), Some 2, Some 3, Some 4, Some 5]"
  have n1: "normalize_bound ?dst (- 4) = Inr 1" and n2: "normalize_bound ?dst (- 2) = Inr 3"
    and n3: "normalize_bound ?dst 3 = Inr 3"
    by (simp_all add: normalize_bound_def as_size_type_def column_size_def)
  have sz: "column_size ?dst < 2 ^ 31" by (simp add: column_size_def)
  have a: "\<bar>sint ((3 :: size_type) - 2)\<bar> \<le> 1" by simp
  have b: "\<not> \<bar>sint ((- 4 :: size_type) - 3)\<bar> \<le> 1" by simp
  have c: "\<not> \<bar>sint ((- 2 :: size_type) - (- 4))\<bar> \<le> 1" by simp
  have 1: "copy_range ?src ?dst 0 2 2 3 False = Inr (PyColumn ?dst, ?dst)"
    using copy_range_call_site_policy [where tb = 2 and te = 3 and src = ?src and dst = ?dst
        and ib = 0 and ie = 2 and inplace = False] a by blast
  have 2: "copy_range ?src ?dst 0 2 3 (- 4) False = Inr (PyColumn ?dst, ?dst)"
    using copy_range_call_site_policy [where tb = 3 and te = "- 4" and src = ?src and dst = ?dst
        and ib = 0 and ie = 2 and inplace = False] b sz n1 n3 by auto
  have 3: "copy_range ?src ?dst 0 2 (- 4) (- 2) False
             = Inr (PyColumn [Some 1, Some 7, Some 8, Some 4, Some 5], ?dst)"
    using copy_range_call_site_policy [where tb = "- 4" and te = "- 2" and src = ?src
        and dst = ?dst and ib = 0 and ie = 2 and inplace = False] c sz n1 n2
    by (auto simp: range_defs column_size_def)
  from a b c sz n1 n2 1 2 3 show ?thesis by blast
qed

section \<open>Properties of gather and scatter\<close>

lemma num_rows_Cons [simp]: "num_rows (c # t) = length c"
  by (simp add: num_rows_def)

lemma num_rows_Nil [simp]: "num_rows [] = 0"
  by (simp add: num_rows_def)

lemma table_ok_nth: "table_ok t \<Longrightarrow> j < length t \<Longrightarrow> length (t ! j) = num_rows t"
  by (simp add: table_ok_def)

lemma num_rows_map:
  "num_rows (map (\<lambda>c. map (g c) ks) t) = (if t = [] then 0 else length ks)"
  by (cases t) simp_all

lemma length_foldl_update:
  "length (foldl (\<lambda>t (k, v). t[f k := v]) t kvs) = length t"
  by (induction kvs arbitrary: t) (auto split: prod.splits)

lemma length_scatter_column [simp]: "length (scatter_column n s m t) = length t"
  by (simp add: scatter_column_def length_foldl_update)

lemma length_foldl_update_scalar:
  "length (foldl (\<lambda>t k. t[f k := s]) t ks) = length t"
  by (induction ks arbitrary: t) auto

lemma length_scatter_scalar_column [simp]: "length (scatter_scalar_column n s m t) = length t"
  by (simp add: scatter_scalar_column_def length_foldl_update_scalar)

lemma foldl_update_frame:
  "r \<notin> f ` fst ` set kvs \<Longrightarrow> foldl (\<lambda>t (k, v). t[f k := v]) t kvs ! r = t ! r"
  by (induction kvs arbitrary: t) (auto split: prod.splits)

lemma foldl_update_scalar_frame:
  "r \<notin> f ` set ks \<Longrightarrow> foldl (\<lambda>t k. t[f k := s]) t ks ! r = t ! r"
  by (induction ks arbitrary: t) auto

lemma foldl_update_agree:
  assumes "\<forall>(k, v) \<in> set kvs. v = c ! f k" and "r \<in> f ` fst ` set kvs" and "r < length t"
  shows "foldl (\<lambda>t (k, v). t[f k := v]) t kvs ! r = c ! r"
  using assms
proof (induction kvs rule: rev_induct)
  case Nil
  then show ?case by simp
next
  case (snoc kv kvs)
  obtain k v where kv: "kv = (k, v)" by (cases kv)
  show ?case
  proof (cases "r = f k")
    case True
    with snoc.prems kv show ?thesis by (simp add: length_foldl_update)
  next
    case False
    with snoc.prems kv have "r \<in> f ` fst ` set kvs" by auto
    with snoc False kv show ?thesis by simp
  qed
qed

lemma scatter_column_frame:
  "int r \<notin> wrap_index n ` set m \<Longrightarrow> in_bounds n m \<Longrightarrow> scatter_column n s m t ! r = t ! r"
proof -
  assume a: "int r \<notin> wrap_index n ` set m" and b: "in_bounds n m"
  have "r \<notin> (\<lambda>k. nat (wrap_index n k)) ` fst ` set (zip m s)"
  proof
    assume "r \<in> (\<lambda>k. nat (wrap_index n k)) ` fst ` set (zip m s)"
    then obtain k v where kv: "(k, v) \<in> set (zip m s)" "r = nat (wrap_index n k)" by auto
    then have "k \<in> set m" by (auto dest: set_zip_leftD)
    with b kv have "int r = wrap_index n k" by (simp add: in_bounds_def)
    with a \<open>k \<in> set m\<close> show False by auto
  qed
  then show ?thesis unfolding scatter_column_def by (rule foldl_update_frame)
qed

lemma scatter_scalar_column_frame:
  "int r \<notin> wrap_index n ` set m \<Longrightarrow> in_bounds n m \<Longrightarrow> scatter_scalar_column n s m t ! r = t ! r"
proof -
  assume a: "int r \<notin> wrap_index n ` set m" and b: "in_bounds n m"
  have "r \<notin> (\<lambda>k. nat (wrap_index n k)) ` set m"
  proof
    assume "r \<in> (\<lambda>k. nat (wrap_index n k)) ` set m"
    then obtain k where kv: "k \<in> set m" "r = nat (wrap_index n k)" by auto
    with b kv have "int r = wrap_index n k" by (simp add: in_bounds_def)
    with a \<open>k \<in> set m\<close> show False by auto
  qed
  then show ?thesis unfolding scatter_scalar_column_def by (rule foldl_update_scalar_frame)
qed

lemma scatter_gathered_column:
  assumes cover: "\<forall>r < n. int r \<in> wrap_index n ` set m"
    and "length c = n" and "length t = n"
  shows "scatter_column n (map (\<lambda>k. c ! nat (wrap_index n k)) m) m t = c"
proof (rule nth_equalityI)
  show "length (scatter_column n (map (\<lambda>k. c ! nat (wrap_index n k)) m) m t) = length c"
    using assms by simp
next
  fix r
  assume "r < length (scatter_column n (map (\<lambda>k. c ! nat (wrap_index n k)) m) m t)"
  then have r: "r < n" using assms by simp
  let ?f = "\<lambda>k. nat (wrap_index n k)"
  let ?kvs = "zip m (map (\<lambda>k. c ! ?f k) m)"
  have 1: "\<forall>(k, v) \<in> set ?kvs. v = c ! ?f k"
    by (auto simp: zip_map2 zip_same_conv_map)
  from cover r obtain k where k: "k \<in> set m" "int r = wrap_index n k" by auto
  then have "(k, c ! ?f k) \<in> set ?kvs" by (auto simp: zip_map2 zip_same_conv_map)
  moreover have "r = ?f k" using k by simp
  ultimately have 2: "r \<in> ?f ` fst ` set ?kvs" by force
  from foldl_update_agree [of ?kvs c ?f r t, OF 1 2] r assms
  show "scatter_column n (map (\<lambda>k. c ! nat (wrap_index n k)) m) m t ! r = c ! r"
    by (simp add: scatter_column_def)
qed

lemma permutation_facts:
  assumes "mset P = mset (map int [0..<n])"
  shows "length P = n" and "in_bounds n P" and "\<forall>r < n. int r \<in> wrap_index n ` set P"
proof -
  note m = assms
  from m have "size (mset P) = size (mset (map int [0..<n]))" by simp
  then show "length P = n" by simp
  from m have s: "set P = int ` {0..<n}" by (metis mset_eq_setD set_map set_upt)
  show "in_bounds n P" using s by (auto simp: in_bounds_def wrap_index_def)
  show "\<forall>r < n. int r \<in> wrap_index n ` set P"
  proof (intro allI impI)
    fix r assume "r < n"
    then have "int r \<in> set P" using s by auto
    moreover have "wrap_index n (int r) = int r" by (simp add: wrap_index_def)
    ultimately show "int r \<in> wrap_index n ` set P" by force
  qed
qed

lemma gather_Inr:
  assumes "gather T P = Inr result"
  shows "table_ok T \<and> in_bounds (num_rows T) P \<and>
         result = PyTable (map (\<lambda>c. map (\<lambda>k. c ! nat (wrap_index (num_rows T) k)) P) T)"
  using assms by (auto simp: gather_def cpp_gather_def Let_def split: if_splits)

text \<open>
  C4. The table returned by \<open>gather\<close> has as many rows as the gather map has entries
  and the columns of the source; output row \<open>i\<close> is the source row at the wrapped index
  \<open>gather_map[i]\<close>, which lies within the source, and an output element is null exactly
  when the gathered source element is; a gather of a well-formed table with a map within
  bounds returns; column \<open>[10, null, 30, 40]\<close> gathered with \<open>[3, 1, 0]\<close> is
  \<open>[40, null, 10]\<close>.
\<close>

theorem gather_rows:
  "(gather source_table gather_map = Inr result \<longrightarrow>
      (\<exists>out. result = PyTable out \<and> length out = length source_table
         \<and> num_rows out = length gather_map
         \<and> (\<forall>c < length source_table. length (out ! c) = length gather_map
              \<and> (\<forall>i < length gather_map.
                    0 \<le> wrap_index (num_rows source_table) (gather_map ! i)
                  \<and> wrap_index (num_rows source_table) (gather_map ! i) < int (num_rows source_table)
                  \<and> out ! c ! i =
                      source_table ! c ! nat (wrap_index (num_rows source_table) (gather_map ! i))
                  \<and> (out ! c ! i = None \<longleftrightarrow>
                      source_table ! c ! nat (wrap_index (num_rows source_table) (gather_map ! i))
                        = None)))))
   \<and> (table_ok source_table \<and> in_bounds (num_rows source_table) gather_map \<longrightarrow>
        (\<exists>out. gather source_table gather_map = Inr (PyTable out)))
   \<and> gather [[Some (10::int), None, Some 30, Some 40]] [3, 1, 0]
        = Inr (PyTable [[Some 40, None, Some 10]])"
proof (intro conjI impI)
  assume a: "gather source_table gather_map = Inr result"
  let ?n = "num_rows source_table"
  let ?out = "map (\<lambda>c. map (\<lambda>k. c ! nat (wrap_index ?n k)) gather_map) source_table"
  note g = gather_Inr [OF a]
  have rows: "num_rows ?out = length gather_map"
  proof (cases source_table)
    case Nil
    with g have "in_bounds 0 gather_map" by simp
    then have "gather_map = []" by (cases gather_map) (auto simp: in_bounds_def)
    with Nil show ?thesis by simp
  next
    case (Cons c t)
    then show ?thesis by simp
  qed
  have els: "\<forall>c < length source_table. length (?out ! c) = length gather_map
              \<and> (\<forall>i < length gather_map.
                    0 \<le> wrap_index ?n (gather_map ! i)
                  \<and> wrap_index ?n (gather_map ! i) < int ?n
                  \<and> ?out ! c ! i = source_table ! c ! nat (wrap_index ?n (gather_map ! i))
                  \<and> (?out ! c ! i = None \<longleftrightarrow>
                      source_table ! c ! nat (wrap_index ?n (gather_map ! i)) = None))"
    using g by (auto simp: in_bounds_def)
  from g rows els show "\<exists>out. result = PyTable out \<and> length out = length source_table
         \<and> num_rows out = length gather_map
         \<and> (\<forall>c < length source_table. length (out ! c) = length gather_map
              \<and> (\<forall>i < length gather_map.
                    0 \<le> wrap_index (num_rows source_table) (gather_map ! i)
                  \<and> wrap_index (num_rows source_table) (gather_map ! i) < int (num_rows source_table)
                  \<and> out ! c ! i =
                      source_table ! c ! nat (wrap_index (num_rows source_table) (gather_map ! i))
                  \<and> (out ! c ! i = None \<longleftrightarrow>
                      source_table ! c ! nat (wrap_index (num_rows source_table) (gather_map ! i))
                        = None)))"
    by (intro exI [of _ ?out]) simp
next
  assume "table_ok source_table \<and> in_bounds (num_rows source_table) gather_map"
  then show "\<exists>out. gather source_table gather_map = Inr (PyTable out)"
    by (simp add: gather_def cpp_gather_def)
next
  show "gather [[Some (10::int), None, Some 30, Some 40]] [3, 1, 0]
        = Inr (PyTable [[Some 40, None, Some 10]])"
    by (simp add: gather_def cpp_gather_def table_ok_def in_bounds_def wrap_index_def)
qed

theorem gather_rows_witness:
  "gather [[Some (10::int), None, Some 30, Some 40], [Some 1, Some 2, None, Some 4]] [- 1, 1, 0]
     = Inr (PyTable [[Some 40, None, Some 10], [Some 4, Some 2, Some 1]])
   \<and> (\<exists>out. PyTable [[Some (40::int), None, Some 10], [Some 4, Some 2, Some 1]] = PyTable out
          \<and> num_rows out = 3
          \<and> out ! 0 ! 1 = [[Some (10::int), None, Some 30, Some 40], [Some 1, Some 2, None, Some 4]] ! 0 ! 1
          \<and> out ! 0 ! 1 = None)"
proof -
  let ?T = "[[Some (10::int), None, Some 30, Some 40], [Some 1, Some 2, None, Some 4]]"
  let ?P = "[- 1, 1, 0 :: int]"
  let ?R = "PyTable [[Some (40::int), None, Some 10], [Some 4, Some 2, Some 1]]"
  have g: "gather ?T ?P = Inr ?R"
    by (simp add: gather_def cpp_gather_def table_ok_def in_bounds_def wrap_index_def)
  from gather_rows [of ?T ?P ?R] g obtain out where
    o: "?R = PyTable out" "num_rows out = length ?P"
       "\<forall>c < length ?T. length (out ! c) = length ?P
              \<and> (\<forall>i < length ?P.
                    0 \<le> wrap_index (num_rows ?T) (?P ! i)
                  \<and> wrap_index (num_rows ?T) (?P ! i) < int (num_rows ?T)
                  \<and> out ! c ! i = ?T ! c ! nat (wrap_index (num_rows ?T) (?P ! i))
                  \<and> (out ! c ! i = None \<longleftrightarrow>
                      ?T ! c ! nat (wrap_index (num_rows ?T) (?P ! i)) = None))"
    by blast
  from o(3) have "out ! 0 ! 1 = ?T ! 0 ! nat (wrap_index (num_rows ?T) (?P ! 1))"
    by (simp add: wrap_index_def)
  then have "out ! 0 ! 1 = ?T ! 0 ! 1" by (simp add: wrap_index_def)
  with g o(1,2) show ?thesis by auto
qed

text \<open>
  C3. For every table \<open>T\<close>, every map \<open>P\<close> that is a permutation of the row indices of
  \<open>T\<close>, and every table \<open>T'\<close> of the shape of \<open>T\<close> (as many columns and rows), gathering
  \<open>T\<close> with \<open>P\<close> and scattering the result with \<open>P\<close> into \<open>T'\<close> returns \<open>T\<close>.
\<close>

theorem scatter_gather_roundtrip:
  assumes T: "table_ok T" and T': "table_ok T'"
    and shape: "length T' = length T" "num_rows T' = num_rows T"
    and P: "mset P = mset (map int [0..<num_rows T])"
  shows "\<exists>G. gather T P = Inr (PyTable G) \<and>
             scatter (InputTable G) P T' bounds_check = Inr (PyTable T, T')"
proof -
  let ?n = "num_rows T"
  let ?G = "map (\<lambda>c. map (\<lambda>k. c ! nat (wrap_index ?n k)) P) T"
  note pf = permutation_facts [OF P]
  have g: "gather T P = Inr (PyTable ?G)"
    using T pf(2) by (simp add: gather_def cpp_gather_def)
  have okG: "table_ok ?G"
    by (cases T) (simp_all add: table_ok_def)
  have rowsG: "num_rows ?G = length P \<or> (T = [] \<and> ?n = 0)"
    by (cases T) simp_all
  then have rowsG': "length P = num_rows ?G"
    using pf(1) by (cases T) simp_all
  have cols: "map (\<lambda>(s, t). scatter_column ?n s P t) (zip ?G T') = T"
  proof (rule nth_equalityI)
    show "length (map (\<lambda>(s, t). scatter_column ?n s P t) (zip ?G T')) = length T"
      using shape by simp
  next
    fix j
    assume "j < length (map (\<lambda>(s, t). scatter_column ?n s P t) (zip ?G T'))"
    then have j: "j < length T" using shape by simp
    then have lc: "length (T ! j) = ?n" using T by (simp add: table_ok_nth)
    from j shape T' have lt: "length (T' ! j) = ?n" by (simp add: table_ok_nth)
    from j shape have "map (\<lambda>(s, t). scatter_column ?n s P t) (zip ?G T') ! j
        = scatter_column ?n (map (\<lambda>k. (T ! j) ! nat (wrap_index ?n k)) P) P (T' ! j)"
      by simp
    also have "\<dots> = T ! j"
      using scatter_gathered_column [OF pf(3) lc lt] .
    finally show "map (\<lambda>(s, t). scatter_column ?n s P t) (zip ?G T') ! j = T ! j" .
  qed
  have s: "scatter (InputTable ?G) P T' bounds_check = Inr (PyTable T, T')"
    using okG T' shape rowsG' pf(2) cols
    by (simp add: scatter_def private_scatter_table_def cpp_scatter_def)
  from g s show ?thesis by blast
qed

theorem scatter_gather_roundtrip_witness:
  "table_ok [[Some (10::int), None, Some 30], [Some 1, Some 2, Some 3]]
   \<and> table_ok [[Some (0::int), Some 0, Some 0], [None, None, None]]
   \<and> mset [2, 0, 1] = mset (map int [0..<3])
   \<and> gather [[Some (10::int), None, Some 30], [Some 1, Some 2, Some 3]] [2, 0, 1]
        = Inr (PyTable [[Some 30, Some 10, None], [Some 3, Some 1, Some 2]])
   \<and> scatter (InputTable [[Some (30::int), Some 10, None], [Some 3, Some 1, Some 2]]) [2, 0, 1]
        [[Some 0, Some 0, Some 0], [None, None, None]] True
        = Inr (PyTable [[Some 10, None, Some 30], [Some 1, Some 2, Some 3]],
               [[Some 0, Some 0, Some 0], [None, None, None]])"
proof -
  let ?T = "[[Some (10::int), None, Some 30], [Some 1, Some 2, Some 3]]"
  let ?T' = "[[Some (0::int), Some 0, Some 0], [None, None, None]]"
  let ?P = "[2, 0, 1 :: int]"
  have t: "table_ok ?T" and t': "table_ok ?T'" by (simp_all add: table_ok_def)
  have u: "[0..<3] = [0, 1, 2 :: nat]" by code_simp
  have p3: "mset ?P = mset (map int [0..<3])" by (simp only: u) simp
  have n: "num_rows ?T = 3" by simp
  have p: "mset ?P = mset (map int [0..<num_rows ?T])" by (simp only: n p3)
  have g: "gather ?T ?P = Inr (PyTable [[Some 30, Some 10, None], [Some 3, Some 1, Some 2]])"
    by (simp add: gather_def cpp_gather_def table_ok_def in_bounds_def wrap_index_def)
  from scatter_gather_roundtrip [OF t t' _ _ p, of True] g
  have s: "scatter (InputTable [[Some (30::int), Some 10, None], [Some 3, Some 1, Some 2]]) ?P ?T' True
        = Inr (PyTable ?T, ?T')"
    by simp
  from t t' p3 g s show ?thesis by (intro conjI)
qed

lemma scatter_table_Inr:
  assumes "private_scatter_table source m target bc = Inr result"
  shows "table_ok target \<and> length source = length target \<and> in_bounds (num_rows target) m
         \<and> result = (PyTable (map (\<lambda>(s, t). scatter_column (num_rows target) s m t)
                                 (zip source target)), target)"
  using assms
  by (auto simp: private_scatter_table_def cpp_scatter_def Let_def split: if_splits)

lemma scatter_scalar_Inr:
  assumes "private_scatter_scalar scalars m target bc = Inr result"
  shows "table_ok target \<and> length (map fst (zip scalars target)) = length target
         \<and> in_bounds (num_rows target) m
         \<and> result = (PyTable (map (\<lambda>(s, t). scatter_scalar_column (num_rows target) s m t)
                                 (zip (map fst (zip scalars target)) target)), target)"
  using assms
  by (auto simp: private_scatter_scalar_def cpp_scatter_scalars_def Let_def split: if_splits)

lemma scattered_frame:
  assumes len: "length source = length target"
    and l: "\<forall>s t. length (f s t) = length t"
    and fr: "\<forall>s t r. int r \<notin> A \<longrightarrow> f s t ! r = t ! r"
  shows "length (map (\<lambda>(s, t). f s t) (zip source target)) = length target
         \<and> num_rows (map (\<lambda>(s, t). f s t) (zip source target)) = num_rows target
         \<and> (\<forall>j < length target.
               length (map (\<lambda>(s, t). f s t) (zip source target) ! j) = length (target ! j)
              \<and> (\<forall>r < length (target ! j).
                    int r \<notin> A \<longrightarrow>
                    map (\<lambda>(s, t). f s t) (zip source target) ! j ! r = target ! j ! r))"
proof -
  have "num_rows (map (\<lambda>(s, t). f s t) (zip source target)) = num_rows target"
    using len l by (cases source; cases target) simp_all
  then show ?thesis using len l fr by simp
qed

text \<open>
  C5. Whenever \<open>scatter\<close> returns, for a table or for scalars, it returns a table with
  the columns and the rows of the target, in which every row whose index is not a
  (wrapped) entry of the scatter map is the row of the target, and the storage of the
  target is what it was before the call.
\<close>

theorem scatter_frame:
  "scatter input scatter_map target bounds_check = Inr result \<Longrightarrow>
     \<exists>out. result = (PyTable out, target)
       \<and> length out = length target \<and> num_rows out = num_rows target
       \<and> (\<forall>j < length target. length (out ! j) = length (target ! j)
            \<and> (\<forall>r < length (target ! j).
                  int r \<notin> wrap_index (num_rows target) ` set scatter_map \<longrightarrow>
                  out ! j ! r = target ! j ! r))"
proof (cases input)
  case (InputTable source)
  assume "scatter input scatter_map target bounds_check = Inr result"
  with InputTable have "private_scatter_table source scatter_map target bounds_check = Inr result"
    by (simp add: scatter_def)
  note f = scatter_table_Inr [OF this]
  let ?f = "\<lambda>s t. scatter_column (num_rows target) s scatter_map t"
  from f have len: "length source = length target" and b: "in_bounds (num_rows target) scatter_map"
    by simp_all
  have l: "\<forall>s t. length (?f s t) = length t" by simp
  have fr: "\<forall>s t r. int r \<notin> wrap_index (num_rows target) ` set scatter_map \<longrightarrow> ?f s t ! r = t ! r"
    using scatter_column_frame [OF _ b] by blast
  from f have "result = (PyTable (map (\<lambda>(s, t). ?f s t) (zip source target)), target)"
    by simp
  with scattered_frame [OF len l fr] show ?thesis by blast
next
  case (InputScalars scalars)
  assume "scatter input scatter_map target bounds_check = Inr result"
  with InputScalars have "private_scatter_scalar scalars scatter_map target bounds_check = Inr result"
    by (simp add: scatter_def)
  note f = scatter_scalar_Inr [OF this]
  let ?f = "\<lambda>s t. scatter_scalar_column (num_rows target) s scatter_map t"
  from f have len: "length (map fst (zip scalars target)) = length target"
    and b: "in_bounds (num_rows target) scatter_map"
    by simp_all
  have l: "\<forall>s t. length (?f s t) = length t" by simp
  have fr: "\<forall>s t r. int r \<notin> wrap_index (num_rows target) ` set scatter_map \<longrightarrow> ?f s t ! r = t ! r"
    using scatter_scalar_column_frame [OF _ b] by blast
  from f have "result = (PyTable (map (\<lambda>(s, t). ?f s t)
                                    (zip (map fst (zip scalars target)) target)), target)"
    by simp
  with scattered_frame [OF len l fr] show ?thesis by blast
qed

theorem scatter_frame_witness:
  "scatter (InputTable [[Some (9::int), Some 8]]) [0, - 1] [[Some 1, Some 2, Some 3, Some 4, Some 5]] True
     = Inr (PyTable [[Some 9, Some 2, Some 3, Some 4, Some 8]],
            [[Some 1, Some 2, Some 3, Some 4, Some 5]])
   \<and> (\<exists>out. (PyTable [[Some (9::int), Some 2, Some 3, Some 4, Some 8]],
               [[Some (1::int), Some 2, Some 3, Some 4, Some 5]])
              = (PyTable out, [[Some 1, Some 2, Some 3, Some 4, Some 5]])
          \<and> length out = 1 \<and> num_rows out = 5
          \<and> int 2 \<notin> wrap_index 5 ` set [0, - 1]
          \<and> out ! 0 ! 2 = [[Some (1::int), Some 2, Some 3, Some 4, Some 5]] ! 0 ! 2)"
proof -
  let ?S = "InputTable [[Some (9::int), Some 8]]"
  let ?T = "[[Some (1::int), Some 2, Some 3, Some 4, Some 5]]"
  let ?M = "[0, - 1 :: int]"
  let ?R = "(PyTable [[Some (9::int), Some 2, Some 3, Some 4, Some 8]], ?T)"
  have s: "scatter ?S ?M ?T True = Inr ?R"
    by (simp add: scatter_def private_scatter_table_def cpp_scatter_def table_ok_def
        in_bounds_def wrap_index_def scatter_column_def)
  have n: "num_rows ?T = 5" by simp
  have na: "int 2 \<notin> wrap_index 5 ` set ?M" by (simp add: wrap_index_def)
  from scatter_frame [OF s] obtain out where
    o: "?R = (PyTable out, ?T)" "length out = length ?T" "num_rows out = num_rows ?T"
       "\<forall>j < length ?T. length (out ! j) = length (?T ! j)
            \<and> (\<forall>r < length (?T ! j).
                  int r \<notin> wrap_index (num_rows ?T) ` set ?M \<longrightarrow> out ! j ! r = ?T ! j ! r)"
    by blast
  have j0: "0 < length ?T" and r2: "2 < length (?T ! 0)" by simp_all
  from o(4) j0 have "\<forall>r < length (?T ! 0).
      int r \<notin> wrap_index (num_rows ?T) ` set ?M \<longrightarrow> out ! 0 ! r = ?T ! 0 ! r"
    by blast
  with r2 have "int 2 \<notin> wrap_index (num_rows ?T) ` set ?M \<longrightarrow> out ! 0 ! 2 = ?T ! 0 ! 2"
    by blast
  moreover have "int 2 \<notin> wrap_index (num_rows ?T) ` set ?M" by (simp add: wrap_index_def)
  ultimately have e: "out ! 0 ! 2 = ?T ! 0 ! 2" by blast
  from o(2) have l1: "length out = 1" by simp
  from o(3) have l5: "num_rows out = 5" by (simp only: n)
  from s o(1) l1 l5 na e show ?thesis by blast
qed

section \<open>Properties of conditional select, boolean-mask scatter and shift\<close>

text \<open>
  C6. When both operands of \<open>copy_if_else\<close> are the null scalar, the call returns the
  null object itself, whatever the boolean mask is, and no column: the select of the two
  null scalars, which the call does not make, would be the all-null column of the length
  of the mask.
\<close>

theorem copy_if_else_null_scalars:
  "copy_if_else (Value None) (Value None) boolean_mask = Inr PyNone
   \<and> private_copy_if_else_scalar_scalar None None boolean_mask
       = Inr (PyColumn (replicate (length boolean_mask) None))"
proof -
  have "select_rows (\<lambda>i. None) (\<lambda>i. None) boolean_mask = replicate (length boolean_mask) None"
    by (rule nth_equalityI) (simp_all add: select_rows_def)
  then show ?thesis
    by (simp add: private_copy_if_else_scalar_scalar_def cpp_copy_if_else_scalar_scalar_def
        to_pyobject_def)
qed

text \<open>
  C1. \<open>boolean_mask_scatter\<close> is to return the target with its true-masked rows
  overwritten, in order, by the input rows: \<open>[A, q, B, s]\<close> for the mask
  \<open>[T, F, T, F]\<close>, input rows \<open>[A, B]\<close> and target \<open>[p, q, r, s]\<close>. On these
  arguments the helper \<open>_boolean_mask_scatter_table\<close> computes that table, and the call
  of \<open>boolean_mask_scatter\<close> returns \<open>None\<close>.
\<close>

theorem boolean_mask_scatter_returns_none:
  "private_boolean_mask_scatter_table [[Some (100::int), Some 200], [None, Some 7]]
       [[Some 1, Some 2, Some 3, Some 4], [Some 5, Some 6, Some 7, Some 8]]
       [Some True, Some False, Some True, Some False]
     = Inr (PyTable [[Some 100, Some 2, Some 200, Some 4], [None, Some 6, Some 7, Some 8]],
            [[Some 1, Some 2, Some 3, Some 4], [Some 5, Some 6, Some 7, Some 8]])
   \<and> boolean_mask_scatter (InputTable [[Some (100::int), Some 200], [None, Some 7]])
       [[Some 1, Some 2, Some 3, Some 4], [Some 5, Some 6, Some 7, Some 8]]
       [Some True, Some False, Some True, Some False]
     = Inr (PyNone, [[Some 1, Some 2, Some 3, Some 4], [Some 5, Some 6, Some 7, Some 8]])"
  by (simp add: boolean_mask_scatter_def private_boolean_mask_scatter_table_def
      cpp_boolean_mask_scatter_def table_ok_def count_true_def)

lemma boolean_mask_scatter_never_table:
  "boolean_mask_scatter input target boolean_mask \<noteq> Inr (PyTable out, storage)"
  by (auto simp: boolean_mask_scatter_def split: scatter_input.splits sum.splits prod.splits)

lemma cpp_shift_zero: "cpp_shift input 0 fill_value = input"
  by (rule nth_equalityI) (simp_all add: cpp_shift_def)

text \<open>
  C7. For every column \<open>X\<close> and every fill value, \<open>shift\<close> with offset 0 returns a column
  equal to \<open>X\<close>, element for element, nulls included.
\<close>

theorem shift_zero_identity:
  "shift X 0 fill_value = Inr (PyColumn X)"
  by (simp add: shift_def cpp_shift_zero)

section \<open>The no-op test and the return value of the range copy\<close>

text \<open>
  C9. The test for a span of length at most 1 reads the bounds as they are passed,
  before the normalization: on a column of size 5, \<open>target_begin = 0\<close> and
  \<open>target_end = -1\<close> pass the test, their normalized span is \<open>[0, 4)\<close>, which does not
  pass it, and the call returns the target column unchanged; the call with the bounds
  0 and 4 makes the copy.
\<close>

theorem copy_range_test_on_raw_bounds:
  "length dst = 5 \<Longrightarrow>
     \<bar>sint ((- 1 :: size_type) - 0)\<bar> \<le> 1
   \<and> normalize_bound dst 0 = Inr 0 \<and> normalize_bound dst (- 1) = Inr 4
   \<and> \<not> \<bar>sint ((4 :: size_type) - 0)\<bar> \<le> 1
   \<and> copy_range src dst ib ie 0 (- 1) inplace = Inr (PyColumn dst, dst)
   \<and> copy_range src dst ib ie 0 4 inplace =
       (if inplace then private_copy_range_in_place src dst ib ie 0
        else private_copy_range src dst ib ie 0)"
  by (simp add: copy_range_def normalize_bound_def as_size_type_def column_size_def)

theorem copy_range_test_on_raw_bounds_witness:
  "length [Some (1::int), Some 2, Some 3, Some 4, Some 5] = 5
   \<and> normalize_bound [Some (1::int), Some 2, Some 3, Some 4, Some 5] (- 1) = Inr 4
   \<and> copy_range [Some 7, Some 8, Some 9, Some 10] [Some (1::int), Some 2, Some 3, Some 4, Some 5]
        0 4 0 (- 1) True
       = Inr (PyColumn [Some 1, Some 2, Some 3, Some 4, Some 5],
              [Some 1, Some 2, Some 3, Some 4, Some 5])
   \<and> copy_range [Some 7, Some 8, Some 9, Some 10] [Some (1::int), Some 2, Some 3, Some 4, Some 5]
        0 4 0 4 True
       = Inr (PyNone, [Some 7, Some 8, Some 9, Some 10, Some 5])"
proof -
  let ?src = "[Some (7::int), Some 8, Some 9, Some 10]"
  let ?dst = "[Some (1::int), Some 2, Some 3, Some 4, Some 5]"
  have l: "length ?dst = 5" by simp
  note t = copy_range_test_on_raw_bounds [OF l, of ?src 0 4 True]
  have "private_copy_range_in_place ?src ?dst 0 4 0
          = Inr (PyNone, [Some 7, Some 8, Some 9, Some 10, Some 5])"
    by (simp add: range_defs column_size_def)
  with t l show ?thesis by simp
qed

text \<open>
  C10. When the destination span passes both guards (raw length above 1 and normalized
  begin at most the normalized end), the call with \<open>inplace = True\<close> leaves the result
  of the in-place copy in the storage of the target and returns \<open>None\<close>, never a
  column; the call with \<open>inplace = False\<close> returns the column of the out-of-place copy;
  on the two guard paths the call returns the target column.
\<close>

theorem copy_range_inplace_returns_none:
  "(\<not> \<bar>sint (te - tb)\<bar> \<le> 1 \<and> normalize_bound dst tb = Inr tb1
      \<and> normalize_bound dst te = Inr te1 \<and> sint tb1 \<le> sint te1 \<longrightarrow>
        copy_range src dst ib ie tb te True =
          (case cpp_copy_range_in_place src dst ib ie tb1 of
             Inl e \<Rightarrow> Inl e
           | Inr storage \<Rightarrow> Inr (PyNone, storage))
      \<and> (\<forall>c storage. copy_range src dst ib ie tb te True \<noteq> Inr (PyColumn c, storage))
      \<and> copy_range src dst ib ie tb te False =
          (case cpp_copy_range src dst ib ie tb1 of
             Inl e \<Rightarrow> Inl e
           | Inr c \<Rightarrow> Inr (PyColumn c, dst)))
   \<and> (\<bar>sint (te - tb)\<bar> \<le> 1 \<longrightarrow>
        copy_range src dst ib ie tb te inplace = Inr (PyColumn dst, dst))
   \<and> (\<not> \<bar>sint (te - tb)\<bar> \<le> 1 \<and> normalize_bound dst tb = Inr tb1
      \<and> normalize_bound dst te = Inr te1 \<and> sint tb1 > sint te1 \<longrightarrow>
        copy_range src dst ib ie tb te inplace = Inr (PyColumn dst, dst))"
  by (auto simp: copy_range_def private_copy_range_in_place_def private_copy_range_def
      split: sum.splits)

theorem copy_range_inplace_returns_none_witness:
  "\<not> \<bar>sint ((3 :: size_type) - 1)\<bar> \<le> 1
   \<and> normalize_bound [Some (1::int), Some 2, Some 3, Some 4, Some 5] 1 = Inr 1
   \<and> normalize_bound [Some (1::int), Some 2, Some 3, Some 4, Some 5] 3 = Inr 3
   \<and> sint (1 :: size_type) \<le> sint (3 :: size_type)
   \<and> copy_range [Some 7, Some 8] [Some (1::int), Some 2, Some 3, Some 4, Some 5] 0 2 1 3 True
       = Inr (PyNone, [Some 1, Some 7, Some 8, Some 4, Some 5])
   \<and> copy_range [Some 7, Some 8] [Some (1::int), Some 2, Some 3, Some 4, Some 5] 0 2 1 3 False
       = Inr (PyColumn [Some 1, Some 7, Some 8, Some 4, Some 5],
              [Some 1, Some 2, Some 3, Some 4, Some 5])"
proof -
  let ?src = "[Some (7::int), Some 8]"
  let ?dst = "[Some (1::int), Some 2, Some 3, Some 4, Some 5]"
  have g: "\<not> \<bar>sint ((3 :: size_type) - 1)\<bar> \<le> 1" by simp
  have b: "normalize_bound ?dst 1 = Inr 1" and e: "normalize_bound ?dst 3 = Inr 3"
    by (simp_all add: normalize_bound_def)
  have o: "sint (1 :: size_type) \<le> sint (3 :: size_type)" by simp
  have i: "cpp_copy_range_in_place ?src ?dst 0 2 1 = Inr [Some 1, Some 7, Some 8, Some 4, Some 5]"
    and c: "cpp_copy_range ?src ?dst 0 2 1 = Inr [Some 1, Some 7, Some 8, Some 4, Some 5]"
    by (simp_all add: range_defs column_size_def)
  from copy_range_inplace_returns_none [of 3 1 ?dst 1 3 ?src 0 2] g b e o
  have "copy_range ?src ?dst 0 2 1 3 True =
          (case cpp_copy_range_in_place ?src ?dst 0 2 1 of
             Inl e \<Rightarrow> Inl e
           | Inr storage \<Rightarrow> Inr (PyNone, storage))"
    and "copy_range ?src ?dst 0 2 1 3 False =
          (case cpp_copy_range ?src ?dst 0 2 1 of
             Inl e \<Rightarrow> Inl e
           | Inr c \<Rightarrow> Inr (PyColumn c, ?dst))"
    by blast+
  with i c have "copy_range ?src ?dst 0 2 1 3 True
                   = Inr (PyNone, [Some 1, Some 7, Some 8, Some 4, Some 5])"
    and "copy_range ?src ?dst 0 2 1 3 False
                   = Inr (PyColumn [Some 1, Some 7, Some 8, Some 4, Some 5], ?dst)"
    by simp_all
  with g b e o show ?thesis by blast
qed

section \<open>Properties of the error utilities\<close>

lemma CUDF_EXPECTS_raises:
  "CUDF_EXPECTS file line cond reason = Inl e \<longleftrightarrow>
     \<not> cond \<and> e = logic_error (''cuDF failure at: '' @ file @ '':'' @ to_string line
                                @ '': '' @ reason)"
  by (auto simp: CUDF_EXPECTS_def)

lemma check_stream_raises:
  "check_stream rt stream file line = Inl e \<longleftrightarrow>
     (cudaStreamSynchronize rt stream \<noteq> cudaSuccess
        \<and> e = throw_cuda_error rt (cudaStreamSynchronize rt stream) file line)
     \<or> (cudaStreamSynchronize rt stream = cudaSuccess \<and> cudaGetLastError rt \<noteq> cudaSuccess
        \<and> e = throw_cuda_error rt (cudaGetLastError rt) file line)"
  by (auto simp: check_stream_def Let_def)

lemma CUDA_TRY_raises:
  "CUDA_TRY rt status file line = Inl e \<longleftrightarrow>
     status \<noteq> cudaSuccess \<and> e = throw_cuda_error rt status file line"
  by (auto simp: CUDA_TRY_def)

lemma error_classes_distinct: "throw_cuda_error rt error file line \<noteq> logic_error message"
  by (simp add: throw_cuda_error_def)

end
